theory Spec2Isabelle
  imports Complex_Main
begin

section \<open>JavaScript numbers\<close>

text \<open>
  A JavaScript number is modelled as a real, the two infinities or NaN. The special values
  follow IEEE 754 (a division by zero, an indeterminate form, a comparison with NaN);
  on finite values the arithmetic is exact: rounding, overflow, underflow and the sign of
  zero are not modelled (a zero divisor counts as +0). The program computes in doubles, so
  a whole degree returned by the solver can differ by one from the value computed here when
  the exact angle is within rounding of a whole degree, and very large or very small
  magnitudes overflow or underflow in the program only. The properties of the solver below
  are stated so that they do not rest on these differences: they concern NaN, a range, a
  bound with a margin and the fields that are read, for magnitudes that neither overflow
  nor underflow.
\<close>

datatype jsnum = Fin real | PInf | NInf | NaN

fun isFinite :: "jsnum \<Rightarrow> bool" where
  "isFinite (Fin a) = True"
| "isFinite _ = False"

instantiation jsnum :: "{plus, minus, uminus, times, inverse, ord}"
begin

fun plus_jsnum :: "jsnum \<Rightarrow> jsnum \<Rightarrow> jsnum" where
  "plus_jsnum (Fin a) (Fin b) = Fin (a + b)"
| "plus_jsnum NaN _ = NaN"
| "plus_jsnum _ NaN = NaN"
| "plus_jsnum PInf NInf = NaN"
| "plus_jsnum NInf PInf = NaN"
| "plus_jsnum PInf _ = PInf"
| "plus_jsnum _ PInf = PInf"
| "plus_jsnum NInf _ = NInf"
| "plus_jsnum _ NInf = NInf"

fun uminus_jsnum :: "jsnum \<Rightarrow> jsnum" where
  "uminus_jsnum (Fin a) = Fin (- a)"
| "uminus_jsnum PInf = NInf"
| "uminus_jsnum NInf = PInf"
| "uminus_jsnum NaN = NaN"

definition minus_jsnum :: "jsnum \<Rightarrow> jsnum \<Rightarrow> jsnum" where
  "minus_jsnum a b = a + (- b)"

fun times_jsnum :: "jsnum \<Rightarrow> jsnum \<Rightarrow> jsnum" where
  "times_jsnum (Fin a) (Fin b) = Fin (a * b)"
| "times_jsnum NaN _ = NaN"
| "times_jsnum _ NaN = NaN"
| "times_jsnum PInf (Fin b) = (if b = 0 then NaN else if 0 < b then PInf else NInf)"
| "times_jsnum NInf (Fin b) = (if b = 0 then NaN else if 0 < b then NInf else PInf)"
| "times_jsnum (Fin a) PInf = (if a = 0 then NaN else if 0 < a then PInf else NInf)"
| "times_jsnum (Fin a) NInf = (if a = 0 then NaN else if 0 < a then NInf else PInf)"
| "times_jsnum PInf PInf = PInf"
| "times_jsnum NInf NInf = PInf"
| "times_jsnum PInf NInf = NInf"
| "times_jsnum NInf PInf = NInf"

fun divide_jsnum :: "jsnum \<Rightarrow> jsnum \<Rightarrow> jsnum" where
  "divide_jsnum (Fin a) (Fin b) =
     (if b = 0 then (if a = 0 then NaN else if 0 < a then PInf else NInf)
      else Fin (a / b))"
| "divide_jsnum NaN _ = NaN"
| "divide_jsnum _ NaN = NaN"
| "divide_jsnum (Fin a) _ = Fin 0"
| "divide_jsnum PInf (Fin b) = (if 0 \<le> b then PInf else NInf)"
| "divide_jsnum NInf (Fin b) = (if 0 \<le> b then NInf else PInf)"
| "divide_jsnum _ _ = NaN"

definition inverse_jsnum :: "jsnum \<Rightarrow> jsnum" where
  "inverse_jsnum a = divide (Fin 1) a"

fun less_jsnum :: "jsnum \<Rightarrow> jsnum \<Rightarrow> bool" where
  "less_jsnum (Fin a) (Fin b) = (a < b)"
| "less_jsnum NaN _ = False"
| "less_jsnum _ NaN = False"
| "less_jsnum _ NInf = False"
| "less_jsnum PInf _ = False"
| "less_jsnum _ _ = True"

fun less_eq_jsnum :: "jsnum \<Rightarrow> jsnum \<Rightarrow> bool" where
  "less_eq_jsnum (Fin a) (Fin b) = (a \<le> b)"
| "less_eq_jsnum NaN _ = False"
| "less_eq_jsnum _ NaN = False"
| "less_eq_jsnum NInf _ = True"
| "less_eq_jsnum _ PInf = True"
| "less_eq_jsnum _ _ = False"

instance ..

end

text \<open>\<^verbatim>\<open>Math.min\<close> and \<^verbatim>\<open>Math.max\<close>: NaN if either argument is NaN.\<close>

fun Math_min :: "jsnum \<Rightarrow> jsnum \<Rightarrow> jsnum" where
  "Math_min NaN _ = NaN"
| "Math_min _ NaN = NaN"
| "Math_min a b = (if b < a then b else a)"

fun Math_max :: "jsnum \<Rightarrow> jsnum \<Rightarrow> jsnum" where
  "Math_max NaN _ = NaN"
| "Math_max _ NaN = NaN"
| "Math_max a b = (if a < b then b else a)"

fun Math_abs :: "jsnum \<Rightarrow> jsnum" where
  "Math_abs (Fin a) = Fin \<bar>a\<bar>"
| "Math_abs NaN = NaN"
| "Math_abs _ = PInf"

fun Math_sqrt :: "jsnum \<Rightarrow> jsnum" where
  "Math_sqrt (Fin a) = (if a < 0 then NaN else Fin (sqrt a))"
| "Math_sqrt PInf = PInf"
| "Math_sqrt _ = NaN"

text \<open>\<^verbatim>\<open>Math.hypot\<close>: an infinite argument wins over NaN.\<close>

fun Math_hypot :: "jsnum \<Rightarrow> jsnum \<Rightarrow> jsnum" where
  "Math_hypot (Fin a) (Fin b) = Fin (sqrt (a * a + b * b))"
| "Math_hypot PInf _ = PInf"
| "Math_hypot NInf _ = PInf"
| "Math_hypot _ PInf = PInf"
| "Math_hypot _ NInf = PInf"
| "Math_hypot _ _ = NaN"

fun Math_floor :: "jsnum \<Rightarrow> jsnum" where
  "Math_floor (Fin a) = Fin (of_int \<lfloor>a\<rfloor>)"
| "Math_floor v = v"

fun Math_acos :: "jsnum \<Rightarrow> jsnum" where
  "Math_acos (Fin a) = (if a < - 1 \<or> 1 < a then NaN else Fin (arccos a))"
| "Math_acos _ = NaN"

fun Math_cos :: "jsnum \<Rightarrow> jsnum" where
  "Math_cos (Fin a) = Fin (cos a)"
| "Math_cos _ = NaN"

fun Math_sin :: "jsnum \<Rightarrow> jsnum" where
  "Math_sin (Fin a) = Fin (sin a)"
| "Math_sin _ = NaN"

text \<open>The two-argument arctangent on reals, the angle of the point \<open>(x, y)\<close> in \<open>(-\<pi>, \<pi>]\<close>.\<close>

definition atan2 :: "real \<Rightarrow> real \<Rightarrow> real" where
  "atan2 y x =
     (if 0 < x then arctan (y / x)
      else if x < 0 then (if 0 \<le> y then arctan (y / x) + pi else arctan (y / x) - pi)
      else if 0 < y then pi / 2
      else if y < 0 then - (pi / 2)
      else 0)"

fun Math_atan2 :: "jsnum \<Rightarrow> jsnum \<Rightarrow> jsnum" where
  "Math_atan2 (Fin y) (Fin x) = Fin (atan2 y x)"
| "Math_atan2 NaN _ = NaN"
| "Math_atan2 _ NaN = NaN"
| "Math_atan2 (Fin y) PInf = Fin 0"
| "Math_atan2 (Fin y) NInf = (if 0 \<le> y then Fin pi else Fin (- pi))"
| "Math_atan2 PInf (Fin x) = Fin (pi / 2)"
| "Math_atan2 NInf (Fin x) = Fin (- (pi / 2))"
| "Math_atan2 PInf PInf = Fin (pi / 4)"
| "Math_atan2 PInf NInf = Fin (3 * pi / 4)"
| "Math_atan2 NInf PInf = Fin (- (pi / 4))"
| "Math_atan2 NInf NInf = Fin (- (3 * pi / 4))"

definition Math_PI :: jsnum where
  "Math_PI = Fin pi"

section \<open>Types and constants\<close>

record ArmConfig =
  segment1Length :: jsnum
  segment2Length :: jsnum
  baseRotation :: jsnum

record Coordinates =
  coord_x :: jsnum
  coord_y :: jsnum
  coord_z :: jsnum

record JointAngles =
  base :: jsnum
  shoulder :: jsnum
  elbow :: jsnum
  gripper :: jsnum

datatype HandGesture = NONE | OPEN_PALM | PINCH | CLOSED_FIST

definition DEFAULT_ARM_CONFIG :: ArmConfig where
  "DEFAULT_ARM_CONFIG =
     \<lparr>segment1Length = Fin 150, segment2Length = Fin 120, baseRotation = Fin 0\<rparr>"

definition CANVAS_WIDTH :: jsnum where "CANVAS_WIDTH = Fin 600"
definition CANVAS_HEIGHT :: jsnum where "CANVAS_HEIGHT = Fin 400"
definition BASE_X :: jsnum where "BASE_X = Fin 300"
definition BASE_Y :: jsnum where "BASE_Y = Fin 350"

section \<open>Kinematics\<close>

definition mapInputToCoordinates :: "jsnum \<Rightarrow> jsnum \<Rightarrow> ArmConfig \<Rightarrow> Coordinates" where
  "mapInputToCoordinates normX normY config =
     (let clampedX = Math_max (Fin 0) (Math_min (Fin 1) normX);
          clampedY = Math_max (Fin 0) (Math_min (Fin 1) normY);
          screenX = clampedX * CANVAS_WIDTH;
          screenY = clampedY * CANVAS_HEIGHT;
          x = screenX - BASE_X;
          y = BASE_Y - screenY;
          z = Fin 0
      in \<lparr>coord_x = x, coord_y = y, coord_z = z\<rparr>)"

definition calculateIK :: "Coordinates \<Rightarrow> ArmConfig \<Rightarrow> JointAngles" where
  "calculateIK target config =
     (let x = coord_x target; y = coord_y target; z = coord_z target;
          l1 = segment1Length config;
          l2 = segment2Length config;
          baseAngleRad = Math_atan2 x z;
          baseAngleDeg = (baseAngleRad * Fin 180) / Math_PI;
          dist = Math_sqrt (x * x + y * y);
          maxReach = l1 + l2;
          (adjustX, adjustY) =
            (if maxReach < dist then (let ratio = maxReach / dist in (x * ratio, y * ratio))
             else if dist < Math_abs (l1 - l2) then (x, y)
             else (x, y));
          rSquared = adjustX * adjustX + adjustY * adjustY;
          cosAngle2 = (rSquared - l1 * l1 - l2 * l2) / (Fin 2 * l1 * l2);
          c2 = Math_max (Fin (- 1)) (Math_min (Fin 1) cosAngle2);
          theta2Rad = - Math_acos c2;
          k1 = l1 + l2 * Math_cos theta2Rad;
          k2 = l2 * Math_sin theta2Rad;
          theta1Rad = Math_atan2 adjustY adjustX - Math_atan2 k2 k1
      in \<lparr>base = Math_floor baseAngleDeg,
          shoulder = Math_floor ((theta1Rad * Fin 180) / Math_PI),
          elbow = Math_floor ((theta2Rad * Fin 180) / Math_PI),
          gripper = Fin 0\<rparr>)"

subsection \<open>Forward kinematics of the visualisation\<close>




section \<open>Gesture classification\<close>

record Landmark =
  lm_x :: jsnum
  lm_y :: jsnum

datatype js_error = TypeError

text \<open>An array read \<^verbatim>\<open>xs[i]\<close>: \<^verbatim>\<open>undefined\<close> out of range.\<close>

definition index :: "'a list \<Rightarrow> nat \<Rightarrow> 'a option" where
  "index xs i = (if i < length xs then Some (xs ! i) else None)"

text \<open>The loop over the fingertips; reading a field of \<^verbatim>\<open>undefined\<close> throws.\<close>

fun countFolded :: "Landmark list \<Rightarrow> Landmark \<Rightarrow> nat list \<Rightarrow> nat \<Rightarrow> js_error + nat" where
  "countFolded landmarks wrist [] foldedCount = Inr foldedCount"
| "countFolded landmarks wrist (idx # tips) foldedCount =
     (case index landmarks idx of
        None \<Rightarrow> Inl TypeError
      | Some tip \<Rightarrow>
          (let dist = Math_hypot (lm_x tip - lm_x wrist) (lm_y tip - lm_y wrist)
           in countFolded landmarks wrist tips
                (if dist < Fin 0.25 then foldedCount + 1 else foldedCount)))"

definition analyzeGesture :: "Landmark list option \<Rightarrow> js_error + HandGesture" where
  "analyzeGesture arg =
     (case arg of
        None \<Rightarrow> Inr NONE
      | Some landmarks \<Rightarrow>
          if length landmarks = 0 then Inr NONE
          else
            (case (index landmarks 4, index landmarks 8, index landmarks 0) of
               (Some thumbTip, Some indexTip, Some wrist) \<Rightarrow>
                 (let pinchDist = Math_hypot (lm_x thumbTip - lm_x indexTip)
                                             (lm_y thumbTip - lm_y indexTip)
                  in case countFolded landmarks wrist [8, 12, 16, 20] 0 of
                       Inl e \<Rightarrow> Inl e
                     | Inr foldedCount \<Rightarrow>
                         if 3 \<le> foldedCount then Inr CLOSED_FIST
                         else if pinchDist < Fin 0.05 then Inr PINCH
                         else Inr OPEN_PALM)
             | _ \<Rightarrow> Inl TypeError))"

text \<open>\<^verbatim>\<open>drawLandmarks\<close> reads the landmarks 0 to 20 of the hand; only its failure on a
  shorter list is modelled, not the drawing.\<close>

definition drawLandmarks :: "Landmark list \<Rightarrow> js_error + unit" where
  "drawLandmarks landmarks = (if length landmarks < 21 then Inl TypeError else Inr ())"

section \<open>Application state and the two loops\<close>

record Ball =
  ball_id :: nat
  ball_x :: jsnum
  ball_y :: jsnum
  color :: string
  radius :: jsnum
  isGripped :: bool
  ball_vx :: jsnum
  ball_vy :: jsnum

record InputPos =
  pos_x :: jsnum
  pos_y :: jsnum

text \<open>The state shared by the loops: the React state variables \<^verbatim>\<open>gesture\<close>,
  \<^verbatim>\<open>target\<close>, \<^verbatim>\<open>angles\<close>, \<^verbatim>\<open>balls\<close> and the current values of the refs.\<close>

record AppState =
  configRef :: ArmConfig
  gestureState :: HandGesture
  gestureRef :: HandGesture
  inputPosRef :: InputPos
  lastVideoTimeRef :: jsnum
  targetState :: Coordinates
  anglesState :: JointAngles
  ballsState :: "Ball list"

definition INITIAL_BALLS :: "Ball list" where
  "INITIAL_BALLS =
    [\<lparr>ball_id = 1, ball_x = BASE_X - Fin 100, ball_y = BASE_Y - Fin 20, color = ''#ef4444'',
      radius = Fin 15, isGripped = False, ball_vx = Fin 0, ball_vy = Fin 0\<rparr>,
     \<lparr>ball_id = 2, ball_x = BASE_X + Fin 120, ball_y = BASE_Y - Fin 20, color = ''#3b82f6'',
      radius = Fin 15, isGripped = False, ball_vx = Fin 0, ball_vy = Fin 0\<rparr>,
     \<lparr>ball_id = 3, ball_x = BASE_X - Fin 150, ball_y = BASE_Y - Fin 20, color = ''#10b981'',
      radius = Fin 15, isGripped = False, ball_vx = Fin 0, ball_vy = Fin 0\<rparr>,
     \<lparr>ball_id = 4, ball_x = BASE_X + Fin 80, ball_y = BASE_Y - Fin 80, color = ''#f59e0b'',
      radius = Fin 15, isGripped = False, ball_vx = Fin 0, ball_vy = Fin 0\<rparr>]"

text \<open>The initial values of the state variables and refs of \<^verbatim>\<open>App\<close>.\<close>

definition initialState :: AppState where
  "initialState =
     \<lparr>configRef = DEFAULT_ARM_CONFIG,
      gestureState = OPEN_PALM,
      gestureRef = OPEN_PALM,
      inputPosRef = \<lparr>pos_x = Fin 0.5, pos_y = Fin 0.5\<rparr>,
      lastVideoTimeRef = Fin (- 1),
      targetState = \<lparr>coord_x = Fin 100, coord_y = Fin 100, coord_z = Fin 0\<rparr>,
      anglesState = \<lparr>base = Fin 0, shoulder = Fin 90, elbow = Fin (- 90), gripper = Fin 0\<rparr>,
      ballsState = INITIAL_BALLS\<rparr>"

text \<open>The callback of \<^verbatim>\<open>prevBalls.map\<close> in \<^verbatim>\<open>updatePhysics\<close>.\<close>

definition updateBall :: "bool \<Rightarrow> jsnum \<Rightarrow> jsnum \<Rightarrow> Ball \<Rightarrow> Ball" where
  "updateBall isGripping gripperVisX gripperVisY ball =
     (let x = ball_x ball; y = ball_y ball; vx = ball_vx ball; vy = ball_vy ball;
          dist = Math_hypot (x - gripperVisX) (y - gripperVisY);
          gripThreshold = Fin 30;
          isGripped1 = (if isGripping \<and> dist < gripThreshold then True else isGripped ball);
          isGripped2 = (if \<not> isGripping then False else isGripped1)
      in if isGripped2 then
           ball\<lparr>ball_x := gripperVisX, ball_y := gripperVisY + Fin 15,
                ball_vx := Fin 0, ball_vy := Fin 0, isGripped := isGripped2\<rparr>
         else
           (let vy1 = vy + Fin 0.5;
                vx1 = vx * Fin 0.95;
                y1 = y + vy1;
                x1 = x + vx1;
                (y2, vy2, vx2) =
                  (if BASE_Y - radius ball < y1
                   then (BASE_Y - radius ball, vy1 * Fin (- 0.6), vx1 * Fin 0.8)
                   else (y1, vy1, vx1));
                vx3 = (if x1 < Fin 0 \<or> Fin 600 < x1 then vx2 * Fin (- 1) else vx2)
            in ball\<lparr>ball_x := x1, ball_y := y2, ball_vx := vx3, ball_vy := vy2,
                    isGripped := isGripped2\<rparr>))"

definition updatePhysics :: "AppState \<Rightarrow> AppState" where
  "updatePhysics st =
     (let cfg = configRef st;
          gest = gestureRef st;
          inp = inputPosRef st;
          newCoords = mapInputToCoordinates (pos_x inp) (pos_y inp) cfg;
          calculatedAngles = calculateIK newCoords cfg;
          isGripping = (gest = PINCH);
          calculatedAngles' = calculatedAngles\<lparr>gripper := (if isGripping then Fin 100 else Fin 0)\<rparr>;
          gripperVisX = BASE_X + coord_x newCoords;
          gripperVisY = BASE_Y - coord_y newCoords
      in st\<lparr>targetState := newCoords, anglesState := calculatedAngles',
            ballsState := map (updateBall isGripping gripperVisX gripperVisY) (ballsState st)\<rparr>)"

text \<open>What one run of the tracking loop reads from its environment.\<close>

record Frame =
  videoPresent :: bool
  readyState :: nat
  isVisionReady :: bool
  currentTime :: jsnum
  canvasContext :: bool
  detections :: "Landmark list list option"

text \<open>Strict inequality \<^verbatim>\<open>!==\<close> on numbers: NaN differs from everything.\<close>

definition strictNotEqual :: "jsnum \<Rightarrow> jsnum \<Rightarrow> bool" where
  "strictNotEqual a b = (a = NaN \<or> b = NaN \<or> a \<noteq> b)"

definition loop :: "Frame \<Rightarrow> AppState \<Rightarrow> js_error + AppState" where
  "loop fr st =
     (if videoPresent fr \<and> 2 \<le> readyState fr \<and> isVisionReady fr then
        if strictNotEqual (currentTime fr) (lastVideoTimeRef st) then
          (let st1 = st\<lparr>lastVideoTimeRef := currentTime fr\<rparr>
           in if canvasContext fr then
                (case detections fr of
                   Some (landmarks # others) \<Rightarrow>
                     (case drawLandmarks landmarks of
                        Inl e \<Rightarrow> Inl e
                      | Inr u \<Rightarrow>
                          (case index landmarks 5 of
                             None \<Rightarrow> Inl TypeError
                           | Some pointer \<Rightarrow>
                               (let normX = Fin 1 - lm_x pointer;
                                    normY = lm_y pointer
                                in case analyzeGesture (Some landmarks) of
                                     Inl e \<Rightarrow> Inl e
                                   | Inr currentGesture \<Rightarrow>
                                       (let st2 = (if currentGesture \<noteq> gestureRef st1
                                                   then st1\<lparr>gestureState := currentGesture\<rparr>
                                                   else st1);
                                            st3 = (if currentGesture \<noteq> CLOSED_FIST
                                                   then st2\<lparr>inputPosRef :=
                                                          \<lparr>pos_x = normX, pos_y = normY\<rparr>\<rparr>
                                                   else st2)
                                        in Inr st3))))
                 | _ \<Rightarrow> Inr st1)
              else Inr st1)
        else Inr st
      else Inr st)"

section \<open>Configuration form\<close>

text \<open>A string is the list of the bytes of its UTF-8 encoding. The white space that
  \<^verbatim>\<open>parseFloat\<close> skips: the single bytes TAB, LF, VT, FF, CR and SP, the no-break space
  U+00A0, and U+1680, U+2000 to U+200A, U+2028, U+2029, U+202F, U+205F, U+3000, U+FEFF.\<close>

definition isWhiteSpace :: "char \<Rightarrow> bool" where
  "isWhiteSpace c = (c \<in> set [CHR 0x09, CHR 0x0A, CHR 0x0B, CHR 0x0C, CHR 0x0D, CHR 0x20])"

definition whiteSpace2 :: "string list" where
  "whiteSpace2 = [[CHR 0xC2, CHR 0xA0]]"

definition whiteSpace3 :: "string list" where
  "whiteSpace3 =
     [[CHR 0xE1, CHR 0x9A, CHR 0x80],
      [CHR 0xE2, CHR 0x80, CHR 0x80], [CHR 0xE2, CHR 0x80, CHR 0x81],
      [CHR 0xE2, CHR 0x80, CHR 0x82], [CHR 0xE2, CHR 0x80, CHR 0x83],
      [CHR 0xE2, CHR 0x80, CHR 0x84], [CHR 0xE2, CHR 0x80, CHR 0x85],
      [CHR 0xE2, CHR 0x80, CHR 0x86], [CHR 0xE2, CHR 0x80, CHR 0x87],
      [CHR 0xE2, CHR 0x80, CHR 0x88], [CHR 0xE2, CHR 0x80, CHR 0x89],
      [CHR 0xE2, CHR 0x80, CHR 0x8A],
      [CHR 0xE2, CHR 0x80, CHR 0xA8], [CHR 0xE2, CHR 0x80, CHR 0xA9],
      [CHR 0xE2, CHR 0x80, CHR 0xAF], [CHR 0xE2, CHR 0x81, CHR 0x9F],
      [CHR 0xE3, CHR 0x80, CHR 0x80], [CHR 0xEF, CHR 0xBB, CHR 0xBF]]"

fun dropWhiteSpace :: "string \<Rightarrow> string" where
  "dropWhiteSpace [] = []"
| "dropWhiteSpace (c # cs) =
     (if isWhiteSpace c then dropWhiteSpace cs
      else if take 2 (c # cs) \<in> set whiteSpace2 then dropWhiteSpace (drop 1 cs)
      else if take 3 (c # cs) \<in> set whiteSpace3 then dropWhiteSpace (drop 2 cs)
      else c # cs)"

definition isDigit :: "char \<Rightarrow> bool" where
  "isDigit c = (c \<in> set ''0123456789'')"

text \<open>The value of a decimal digit is its place in the row of digits.\<close>

definition digitValue :: "char \<Rightarrow> nat" where
  "digitValue c = length (takeWhile (\<lambda>d. d \<noteq> c) ''0123456789'')"

definition digitsValue :: "string \<Rightarrow> nat" where
  "digitsValue ds = foldl (\<lambda>acc c. 10 * acc + digitValue c) 0 ds"

text \<open>An optional sign: the factor and the rest of the string.\<close>

fun takeSign :: "string \<Rightarrow> real \<times> string" where
  "takeSign [] = (1, [])"
| "takeSign (c # cs) =
     (if c = CHR ''-'' then (- 1, cs) else if c = CHR ''+'' then (1, cs) else (1, c # cs))"

text \<open>The exponent part \<^verbatim>\<open>e\<close>, sign, digits; it counts only if a digit follows.\<close>

fun exponentPart :: "string \<Rightarrow> real" where
  "exponentPart [] = 1"
| "exponentPart (c # cs) =
     (if c = CHR ''e'' \<or> c = CHR ''E'' then
        (let (sgn, rest) = takeSign cs; ds = takeWhile isDigit rest
         in if ds = [] then 1
            else if sgn < 0 then 1 / 10 ^ digitsValue ds else 10 ^ digitsValue ds)
      else 1)"

text \<open>The number for a sign and the magnitude of a decimal literal: a magnitude of at
  least \<open>2^1024 - 2^970\<close> rounds to an infinity and one of at most \<open>2^-1075\<close> to zero, as in the
  program; between them the value is kept as it is (the rounding to the nearest double is
  not modelled).\<close>

definition toNumber :: "real \<Rightarrow> real \<Rightarrow> jsnum" where
  "toNumber sg m =
     (if 2 ^ 1024 - 2 ^ 970 \<le> m then (if sg < 0 then NInf else PInf)
      else if m \<le> 1 / 2 ^ 1075 then Fin 0
      else Fin (sg * m))"

text \<open>\<^verbatim>\<open>parseFloat\<close>: leading white space is skipped, then the longest prefix that is a
  decimal literal is read, and what follows is ignored; no such prefix gives NaN.\<close>

definition parseFloat :: "string \<Rightarrow> jsnum" where
  "parseFloat s =
     (let (sgn, body) = takeSign (dropWhiteSpace s)
      in if take 8 body = ''Infinity'' then (if sgn < 0 then NInf else PInf)
         else
           (let intDigits = takeWhile isDigit body;
                afterInt = dropWhile isDigit body;
                hasPoint = (afterInt \<noteq> [] \<and> hd afterInt = CHR ''.'');
                fracDigits = (if hasPoint then takeWhile isDigit (tl afterInt) else []);
                afterFrac = (if hasPoint then dropWhile isDigit (tl afterInt) else afterInt)
            in if intDigits = [] \<and> fracDigits = [] then NaN
               else toNumber sgn
                      ((real (digitsValue intDigits)
                        + real (digitsValue fracDigits) / 10 ^ length fracDigits)
                       * exponentPart afterFrac)))"

text \<open>\<^verbatim>\<open>v || 0\<close> on a number: NaN and zero are falsy.\<close>

definition orZero :: "jsnum \<Rightarrow> jsnum" where
  "orZero v = (if v = NaN \<or> v = Fin 0 then Fin 0 else v)"

datatype ConfigKey = Key_segment1Length | Key_segment2Length | Key_baseRotation

fun handleChange :: "ConfigKey \<Rightarrow> string \<Rightarrow> ArmConfig \<Rightarrow> ArmConfig" where
  "handleChange Key_segment1Length val config =
     config\<lparr>segment1Length := orZero (parseFloat val)\<rparr>"
| "handleChange Key_segment2Length val config =
     config\<lparr>segment2Length := orZero (parseFloat val)\<rparr>"
| "handleChange Key_baseRotation val config =
     config\<lparr>baseRotation := orZero (parseFloat val)\<rparr>"

section \<open>Definitions used to state the properties\<close>

text \<open>The clamp of the specification: a value below 0 becomes 0, one above 1 becomes 1.\<close>

definition clamp01_spec :: "jsnum \<Rightarrow> jsnum" where
  "clamp01_spec v = (if v < Fin 0 then Fin 0 else if Fin 1 < v then Fin 1 else v)"

text \<open>The gesture rule of the specification: the distance of a landmark to the wrist
  (landmark 0), the number of fingertips 8, 12, 16, 20 closer to it than 0.25, and the
  distance between thumb tip (4) and index tip (8).\<close>

definition wristDistance :: "Landmark list \<Rightarrow> nat \<Rightarrow> jsnum" where
  "wristDistance landmarks i =
     Math_hypot (lm_x (landmarks ! i) - lm_x (landmarks ! 0))
                (lm_y (landmarks ! i) - lm_y (landmarks ! 0))"

definition foldedCount_spec :: "Landmark list \<Rightarrow> nat" where
  "foldedCount_spec landmarks =
     length (filter (\<lambda>i. wristDistance landmarks i < Fin 0.25) [8, 12, 16, 20])"

definition pinchDistance_spec :: "Landmark list \<Rightarrow> jsnum" where
  "pinchDistance_spec landmarks =
     Math_hypot (lm_x (landmarks ! 4) - lm_x (landmarks ! 8))
                (lm_y (landmarks ! 4) - lm_y (landmarks ! 8))"

text \<open>The gripper position \<^verbatim>\<open>(gripperVisX, gripperVisY)\<close> that a physics tick computes
  from the state it starts in.\<close>

definition gripperVis :: "AppState \<Rightarrow> jsnum \<times> jsnum" where
  "gripperVis st =
     (let newCoords = mapInputToCoordinates (pos_x (inputPosRef st)) (pos_y (inputPosRef st))
                        (configRef st)
      in (BASE_X + coord_x newCoords, BASE_Y - coord_y newCoords))"

text \<open>The solver on real numbers: the adjusted target and the two angles in radians that
  \<^const>\<open>calculateIK\<close> computes before it converts to whole degrees.\<close>

definition ik_adjusted :: "real \<Rightarrow> real \<Rightarrow> real \<Rightarrow> real \<Rightarrow> real \<times> real" where
  "ik_adjusted x y l1 l2 =
     (if l1 + l2 < sqrt (x * x + y * y)
      then (x * ((l1 + l2) / sqrt (x * x + y * y)), y * ((l1 + l2) / sqrt (x * x + y * y)))
      else (x, y))"

definition ik_theta2 :: "real \<Rightarrow> real \<Rightarrow> real \<Rightarrow> real \<Rightarrow> real" where
  "ik_theta2 x y l1 l2 =
     (let (ax, ay) = ik_adjusted x y l1 l2
      in - arccos (max (- 1) (min 1 ((ax * ax + ay * ay - l1 * l1 - l2 * l2) / (2 * l1 * l2)))))"

definition ik_theta1 :: "real \<Rightarrow> real \<Rightarrow> real \<Rightarrow> real \<Rightarrow> real" where
  "ik_theta1 x y l1 l2 =
     (let (ax, ay) = ik_adjusted x y l1 l2; t2 = ik_theta2 x y l1 l2
      in atan2 ay ax - atan2 (l2 * sin t2) (l1 + l2 * cos t2))"

subsection \<open>Example inputs\<close>

text \<open>A hand with every landmark at one point (a fist, with thumb and index touching), and a
  hand with the wrist at the bottom and every other landmark half a unit above it.\<close>

definition fistHand :: "Landmark list" where
  "fistHand = replicate 21 \<lparr>lm_x = Fin 0.5, lm_y = Fin 0.5\<rparr>"

definition pinchHand :: "Landmark list" where
  "pinchHand =
     \<lparr>lm_x = Fin 0.2, lm_y = Fin 0.9\<rparr> # replicate 20 \<lparr>lm_x = Fin 0.2, lm_y = Fin 0.4\<rparr>"

definition fistFrame :: Frame where
  "fistFrame = \<lparr>videoPresent = True, readyState = 4, isVisionReady = True, currentTime = Fin 0,
                canvasContext = True, detections = Some [fistHand]\<rparr>"

definition pinchFrame :: Frame where
  "pinchFrame = \<lparr>videoPresent = True, readyState = 4, isVisionReady = True, currentTime = Fin 0,
                 canvasContext = True, detections = Some [pinchHand]\<rparr>"

text \<open>The initial state with the pointer over the fourth ball and a pinch, and with a single
  ball at rest on the floor.\<close>

definition grippingState :: AppState where
  "grippingState =
     initialState\<lparr>gestureRef := PINCH, inputPosRef := \<lparr>pos_x = Fin (19 / 30), pos_y = Fin 0.7\<rparr>\<rparr>"

definition restingState :: AppState where
  "restingState = initialState\<lparr>ballsState :=
     [\<lparr>ball_id = 1, ball_x = Fin 200, ball_y = Fin 335, color = ''#ef4444'',
       radius = Fin 15, isGripped = False, ball_vx = Fin 0, ball_vy = Fin 0\<rparr>]\<rparr>"

section \<open>Coordinate mapper\<close>

lemma clamp01_source_eq_spec:
  "Math_max (Fin 0) (Math_min (Fin 1) v) = clamp01_spec v"
  by (cases v) (simp_all add: clamp01_spec_def)

lemma clamp01_spec_range:
  "clamp01_spec (Fin a) = Fin (max 0 (min 1 a))"
  by (simp add: clamp01_spec_def max_def min_def)

text \<open>
  With the largest vertical input the mapper does not return the topmost coordinate: the
  input \<open>(0.5, 1)\<close> gives \<open>y = -50\<close>, below the \<open>y = 350\<close> of the input \<open>(0.5, 0)\<close>.
\<close>

theorem mapInputToCoordinates_topmost_counterexample:
  "coord_y (mapInputToCoordinates (Fin 0.5) (Fin 1) DEFAULT_ARM_CONFIG) = Fin (- 50)
   \<and> coord_y (mapInputToCoordinates (Fin 0.5) (Fin 0) DEFAULT_ARM_CONFIG) = Fin 350
   \<and> coord_y (mapInputToCoordinates (Fin 0.5) (Fin 1) DEFAULT_ARM_CONFIG)
       < coord_y (mapInputToCoordinates (Fin 0.5) (Fin 0) DEFAULT_ARM_CONFIG)"
  by (simp add: mapInputToCoordinates_def Let_def
      CANVAS_WIDTH_def CANVAS_HEIGHT_def BASE_X_def BASE_Y_def minus_jsnum_def)

text \<open>
  Claim C6, amended. For every input pair and configuration the mapper clamps both samples
  to \<open>[0, 1]\<close> and returns \<open>x = clampedX * CANVAS_WIDTH - BASE_X\<close>,
  \<open>y = BASE_Y - clampedY * CANVAS_HEIGHT\<close>, \<open>z = 0\<close>; on finite samples these are
  \<open>max 0 (min 1 a) * 600 - 300\<close> and \<open>350 - max 0 (min 1 b) * 400\<close>. The input
  \<open>(0.5, 1)\<close> yields \<open>y = BASE_Y - CANVAS_HEIGHT\<close>, which is the lowest coordinate the
  mapper returns: every finite input gives a \<open>y\<close> between it and \<open>BASE_Y\<close>.
\<close>

theorem mapInputToCoordinates_formula:
  "mapInputToCoordinates normX normY config =
     \<lparr>coord_x = clamp01_spec normX * CANVAS_WIDTH - BASE_X,
      coord_y = BASE_Y - clamp01_spec normY * CANVAS_HEIGHT,
      coord_z = Fin 0\<rparr>
   \<and> mapInputToCoordinates (Fin a) (Fin b) config =
     \<lparr>coord_x = Fin (max 0 (min 1 a) * 600 - 300),
      coord_y = Fin (350 - max 0 (min 1 b) * 400),
      coord_z = Fin 0\<rparr>
   \<and> coord_y (mapInputToCoordinates (Fin 0.5) (Fin 1) config) = BASE_Y - CANVAS_HEIGHT
   \<and> BASE_Y - CANVAS_HEIGHT \<le> coord_y (mapInputToCoordinates (Fin a) (Fin b) config)
   \<and> coord_y (mapInputToCoordinates (Fin a) (Fin b) config) \<le> BASE_Y"
  by (simp add: mapInputToCoordinates_def Let_def clamp01_source_eq_spec clamp01_spec_range
      CANVAS_WIDTH_def CANVAS_HEIGHT_def BASE_X_def BASE_Y_def minus_jsnum_def max_def min_def)

section \<open>Inverse kinematics\<close>

subsection \<open>The solver on finite inputs\<close>

lemma Math_acos_clamped:
  "Math_acos (Math_max (Fin (- 1)) (Math_min (Fin 1) (Fin c)))
     = Fin (arccos (max (- 1) (min 1 c)))"
  by (simp add: max_def min_def)

text \<open>With positive segment lengths no division by zero occurs, and the result is given by
  the real-valued solver.\<close>

lemma calculateIK_finite_inputs:
  assumes "0 < l1" and "0 < l2"
  shows "calculateIK \<lparr>coord_x = Fin x, coord_y = Fin y, coord_z = Fin z\<rparr>
           \<lparr>segment1Length = Fin l1, segment2Length = Fin l2, baseRotation = rot\<rparr> =
         \<lparr>base = Fin (of_int \<lfloor>atan2 x z * 180 / pi\<rfloor>),
          shoulder = Fin (of_int \<lfloor>ik_theta1 x y l1 l2 * 180 / pi\<rfloor>),
          elbow = Fin (of_int \<lfloor>ik_theta2 x y l1 l2 * 180 / pi\<rfloor>),
          gripper = Fin 0\<rparr>"
proof -
  have nn: "\<not> x * x + y * y < 0" by (simp add: not_less)
  show ?thesis
  proof (cases "l1 + l2 < sqrt (x * x + y * y)")
    case True
    then have d0: "sqrt (x * x + y * y) \<noteq> 0" using assms by auto
    show ?thesis
      using True d0 assms
      by (simp add: calculateIK_def Let_def nn minus_jsnum_def Math_PI_def Math_acos_clamped
          ik_theta1_def ik_theta2_def ik_adjusted_def
          del: Math_max.simps Math_min.simps Math_acos.simps)
  next
    case False
    show ?thesis
      using False assms
      by (simp add: calculateIK_def Let_def nn minus_jsnum_def Math_PI_def Math_acos_clamped
          ik_theta1_def ik_theta2_def ik_adjusted_def
          del: Math_max.simps Math_min.simps Math_acos.simps)
  qed
qed

subsection \<open>Polar form of the two-argument arctangent\<close>








subsection \<open>The law-of-cosines solution\<close>



lemma ik_theta2_range:
  "- pi \<le> ik_theta2 x y l1 l2 \<and> ik_theta2 x y l1 l2 \<le> 0"
proof -
  have "0 \<le> arccos (max (- 1) (min 1 c)) \<and> arccos (max (- 1) (min 1 c)) \<le> pi" for c :: real
    by (intro conjI arccos_lbound arccos_ubound) simp_all
  then show ?thesis
    by (simp add: ik_theta2_def split: prod.splits)
qed

lemma floor_degrees_range:
  fixes t :: real
  assumes "- pi \<le> t" and "t \<le> 0"
  shows "- 180 \<le> \<lfloor>t * 180 / pi\<rfloor> \<and> \<lfloor>t * 180 / pi\<rfloor> \<le> 0"
proof -
  have "- pi * 180 / pi \<le> t * 180 / pi"
    using assms(1) by (intro divide_right_mono mult_right_mono) simp_all
  then have lo: "- 180 \<le> t * 180 / pi" by simp
  have hi: "t * 180 / pi \<le> 0"
    using assms(2) by (simp add: divide_le_0_iff mult_le_0_iff)
  from lo have "(- 180::int) \<le> \<lfloor>t * 180 / pi\<rfloor>" by (simp add: le_floor_iff)
  moreover from hi have "\<lfloor>t * 180 / pi\<rfloor> \<le> \<lfloor>0::real\<rfloor>" by (rule floor_mono)
  ultimately show ?thesis by simp
qed

subsection \<open>Round trip through the forward kinematics\<close>












subsection \<open>Finite results\<close>

text \<open>
  A finite configuration with a segment of length zero gives NaN: the cosine term is
  \<open>0 / 0\<close>, which the clamp by \<^verbatim>\<open>Math.min\<close> and \<^verbatim>\<open>Math.max\<close> leaves as it is.
\<close>

theorem calculateIK_finite_counterexample:
  "isFinite (Fin 100) \<and> isFinite (Fin 0)
   \<and> calculateIK \<lparr>coord_x = Fin 100, coord_y = Fin 0, coord_z = Fin 0\<rparr>
        \<lparr>segment1Length = Fin 0, segment2Length = Fin 100, baseRotation = Fin 0\<rparr>
       = \<lparr>base = Fin 90, shoulder = NaN, elbow = NaN, gripper = Fin 0\<rparr>
   \<and> \<not> isFinite (elbow (calculateIK \<lparr>coord_x = Fin 100, coord_y = Fin 0, coord_z = Fin 0\<rparr>
        \<lparr>segment1Length = Fin 0, segment2Length = Fin 100, baseRotation = Fin 0\<rparr>))"
  by (simp add: calculateIK_def Let_def minus_jsnum_def atan2_def Math_PI_def)

text \<open>
  Claim C2, amended. For every finite target and every configuration whose two segment
  lengths are finite and positive, in exact arithmetic, \<^const>\<open>calculateIK\<close> returns finite
  base, shoulder, elbow and gripper, whatever the base rotation is and also for a target
  at distance 0.
\<close>

theorem calculateIK_finite:
  assumes "0 < l1" and "0 < l2"
  shows "isFinite (base (calculateIK \<lparr>coord_x = Fin x, coord_y = Fin y, coord_z = Fin z\<rparr>
                              \<lparr>segment1Length = Fin l1, segment2Length = Fin l2, baseRotation = rot\<rparr>))
       \<and> isFinite (shoulder (calculateIK \<lparr>coord_x = Fin x, coord_y = Fin y, coord_z = Fin z\<rparr>
                              \<lparr>segment1Length = Fin l1, segment2Length = Fin l2, baseRotation = rot\<rparr>))
       \<and> isFinite (elbow (calculateIK \<lparr>coord_x = Fin x, coord_y = Fin y, coord_z = Fin z\<rparr>
                              \<lparr>segment1Length = Fin l1, segment2Length = Fin l2, baseRotation = rot\<rparr>))
       \<and> isFinite (gripper (calculateIK \<lparr>coord_x = Fin x, coord_y = Fin y, coord_z = Fin z\<rparr>
                              \<lparr>segment1Length = Fin l1, segment2Length = Fin l2, baseRotation = rot\<rparr>))"
  by (simp add: calculateIK_finite_inputs[OF assms])

theorem calculateIK_finite_witness:
  "(0::real) < 150 \<and> (0::real) < 120
   \<and> isFinite (base (calculateIK \<lparr>coord_x = Fin 0, coord_y = Fin 0, coord_z = Fin 0\<rparr> DEFAULT_ARM_CONFIG))
   \<and> isFinite (shoulder (calculateIK \<lparr>coord_x = Fin 0, coord_y = Fin 0, coord_z = Fin 0\<rparr> DEFAULT_ARM_CONFIG))
   \<and> isFinite (elbow (calculateIK \<lparr>coord_x = Fin 0, coord_y = Fin 0, coord_z = Fin 0\<rparr> DEFAULT_ARM_CONFIG))
   \<and> isFinite (gripper (calculateIK \<lparr>coord_x = Fin 0, coord_y = Fin 0, coord_z = Fin 0\<rparr> DEFAULT_ARM_CONFIG))"
  using calculateIK_finite[of 150 120 0 0 0 "Fin 0"] by (simp add: DEFAULT_ARM_CONFIG_def)

subsection \<open>Elbow range\<close>

text \<open>
  A positive segment length that is not finite gives no elbow angle at all: with the first
  length infinite the cosine term is \<open>-\<infinity> / \<infinity>\<close>, and the elbow is NaN.
\<close>

theorem calculateIK_elbow_range_counterexample:
  "Fin 0 < PInf \<and> Fin 0 < Fin 120
   \<and> elbow (calculateIK \<lparr>coord_x = Fin 0, coord_y = Fin 0, coord_z = Fin 0\<rparr>
              \<lparr>segment1Length = PInf, segment2Length = Fin 120, baseRotation = Fin 0\<rparr>) = NaN
   \<and> \<not> (Fin (- 180) \<le> elbow (calculateIK \<lparr>coord_x = Fin 0, coord_y = Fin 0, coord_z = Fin 0\<rparr>
              \<lparr>segment1Length = PInf, segment2Length = Fin 120, baseRotation = Fin 0\<rparr>))
   \<and> \<not> (elbow (calculateIK \<lparr>coord_x = Fin 0, coord_y = Fin 0, coord_z = Fin 0\<rparr>
              \<lparr>segment1Length = PInf, segment2Length = Fin 120, baseRotation = Fin 0\<rparr>) \<le> Fin 0)"
  by (simp add: calculateIK_def Let_def minus_jsnum_def atan2_def Math_PI_def)

text \<open>\<^const>\<open>handleChange\<close> stores such a length for the string \<^verbatim>\<open>1e400\<close>.\<close>

lemma handleChange_infinite_length:
  "handleChange Key_segment1Length ''1e400'' DEFAULT_ARM_CONFIG
     = \<lparr>segment1Length = PInf, segment2Length = Fin 120, baseRotation = Fin 0\<rparr>"
  by (simp add: DEFAULT_ARM_CONFIG_def orZero_def parseFloat_def toNumber_def isDigit_def
      isWhiteSpace_def whiteSpace2_def whiteSpace3_def digitsValue_def digitValue_def)

text \<open>
  Claim C8, amended. For every finite target and finite positive segment lengths (of
  magnitudes that do not overflow or underflow) the elbow angle returned by
  \<^const>\<open>calculateIK\<close> lies between -180 and 0 degrees: only the elbow-down branch is
  produced, also for unreachable targets and targets inside the dead zone.
\<close>

theorem calculateIK_elbow_range:
  assumes "0 < l1" and "0 < l2"
  shows "Fin (- 180) \<le> elbow (calculateIK \<lparr>coord_x = Fin x, coord_y = Fin y, coord_z = Fin z\<rparr>
                              \<lparr>segment1Length = Fin l1, segment2Length = Fin l2, baseRotation = rot\<rparr>)
       \<and> elbow (calculateIK \<lparr>coord_x = Fin x, coord_y = Fin y, coord_z = Fin z\<rparr>
                              \<lparr>segment1Length = Fin l1, segment2Length = Fin l2, baseRotation = rot\<rparr>)
           \<le> Fin 0"
proof -
  from ik_theta2_range[of x y l1 l2]
  have "- 180 \<le> \<lfloor>ik_theta2 x y l1 l2 * 180 / pi\<rfloor> \<and> \<lfloor>ik_theta2 x y l1 l2 * 180 / pi\<rfloor> \<le> 0"
    by (intro floor_degrees_range) simp_all
  then have "- 180 \<le> real_of_int \<lfloor>ik_theta2 x y l1 l2 * 180 / pi\<rfloor>
      \<and> real_of_int \<lfloor>ik_theta2 x y l1 l2 * 180 / pi\<rfloor> \<le> 0"
    by linarith
  then show ?thesis
    by (simp add: calculateIK_finite_inputs[OF assms])
qed

theorem calculateIK_elbow_range_witness:
  "(0::real) < 150 \<and> (0::real) < 120
   \<and> Fin (- 180) \<le> elbow (calculateIK \<lparr>coord_x = Fin 500, coord_y = Fin 0, coord_z = Fin 0\<rparr> DEFAULT_ARM_CONFIG)
   \<and> elbow (calculateIK \<lparr>coord_x = Fin 500, coord_y = Fin 0, coord_z = Fin 0\<rparr> DEFAULT_ARM_CONFIG) \<le> Fin 0"
  using calculateIK_elbow_range[of 150 120 500 0 0 "Fin 0"] by (simp add: DEFAULT_ARM_CONFIG_def)

subsection \<open>Independence of the base rotation\<close>

text \<open>
  Claim C10. Two configurations with the same segment lengths give the same joint angles
  for every target: \<^const>\<open>calculateIK\<close> does not read \<^const>\<open>baseRotation\<close>.
\<close>

theorem calculateIK_baseRotation_noninterference:
  assumes "segment1Length c1 = segment1Length c2" and "segment2Length c1 = segment2Length c2"
  shows "calculateIK tgt c1 = calculateIK tgt c2"
  using assms by (simp add: calculateIK_def)

theorem calculateIK_baseRotation_noninterference_witness:
  "segment1Length DEFAULT_ARM_CONFIG = segment1Length (DEFAULT_ARM_CONFIG\<lparr>baseRotation := Fin 90\<rparr>)
   \<and> segment2Length DEFAULT_ARM_CONFIG = segment2Length (DEFAULT_ARM_CONFIG\<lparr>baseRotation := Fin 90\<rparr>)
   \<and> baseRotation DEFAULT_ARM_CONFIG \<noteq> baseRotation (DEFAULT_ARM_CONFIG\<lparr>baseRotation := Fin 90\<rparr>)
   \<and> calculateIK \<lparr>coord_x = Fin 100, coord_y = Fin 100, coord_z = Fin 0\<rparr> DEFAULT_ARM_CONFIG
       = calculateIK \<lparr>coord_x = Fin 100, coord_y = Fin 100, coord_z = Fin 0\<rparr>
           (DEFAULT_ARM_CONFIG\<lparr>baseRotation := Fin 90\<rparr>)"
  using calculateIK_baseRotation_noninterference[of DEFAULT_ARM_CONFIG
      "DEFAULT_ARM_CONFIG\<lparr>baseRotation := Fin 90\<rparr>"
      "\<lparr>coord_x = Fin 100, coord_y = Fin 100, coord_z = Fin 0\<rparr>"]
  by (simp add: DEFAULT_ARM_CONFIG_def)

section \<open>Gesture classification\<close>

lemma countFolded_in_range:
  "\<forall>i \<in> set tips. i < length landmarks \<Longrightarrow>
   countFolded landmarks wrist tips n =
     Inr (n + length (filter (\<lambda>i. Math_hypot (lm_x (landmarks ! i) - lm_x wrist)
                                              (lm_y (landmarks ! i) - lm_y wrist) < Fin 0.25) tips))"
  by (induction tips arbitrary: n) (simp_all add: index_def Let_def)

lemma countFolded_out_of_range:
  "\<exists>i \<in> set tips. length landmarks \<le> i \<Longrightarrow> countFolded landmarks wrist tips n = Inl TypeError"
  by (induction tips arbitrary: n) (auto simp add: index_def Let_def)

lemma analyzeGesture_full_hand:
  assumes len: "21 \<le> length landmarks"
  shows "analyzeGesture (Some landmarks) =
          Inr (if 3 \<le> foldedCount_spec landmarks then CLOSED_FIST
               else if pinchDistance_spec landmarks < Fin 0.05 then PINCH
               else OPEN_PALM)"
proof -
  from len have tips: "\<forall>i \<in> set [8, 12, 16, 20]. i < length landmarks" by simp
  have cf: "countFolded landmarks (landmarks ! 0) [8, 12, 16, 20] 0
              = Inr (foldedCount_spec landmarks)"
    unfolding countFolded_in_range[OF tips] by (simp add: foldedCount_spec_def wristDistance_def)
  from len have idx: "index landmarks 4 = Some (landmarks ! 4)"
    "index landmarks 8 = Some (landmarks ! 8)"
    "index landmarks 0 = Some (landmarks ! 0)" "landmarks \<noteq> []"
    by (auto simp add: index_def)
  show ?thesis
    by (simp add: analyzeGesture_def idx cf Let_def pinchDistance_spec_def
        del: countFolded.simps)
qed

text \<open>A hand with fewer than 21 landmarks makes the classifier read a field of
  \<^verbatim>\<open>undefined\<close>.\<close>

lemma analyzeGesture_short:
  "landmarks \<noteq> [] \<Longrightarrow> length landmarks < 21 \<Longrightarrow> analyzeGesture (Some landmarks) = Inl TypeError"
proof -
  assume ne: "landmarks \<noteq> []" and short: "length landmarks < 21"
  have "\<exists>i \<in> set [8, 12, 16, 20]. length landmarks \<le> i" using short by auto
  then have cf: "countFolded landmarks w [8, 12, 16, 20] 0 = Inl TypeError" for w
    by (rule countFolded_out_of_range)
  show ?thesis using ne
    by (simp add: analyzeGesture_def cf Let_def del: countFolded.simps split: option.splits)
qed

lemma fistHand_folded: "foldedCount_spec fistHand = 4"
  by (simp add: foldedCount_spec_def wristDistance_def fistHand_def minus_jsnum_def)

lemma fistHand_pinch: "pinchDistance_spec fistHand < Fin 0.05"
  by (simp add: pinchDistance_spec_def fistHand_def minus_jsnum_def)

lemma fistHand_gesture: "analyzeGesture (Some fistHand) = Inr CLOSED_FIST"
proof -
  have "21 \<le> length fistHand" by (simp add: fistHand_def)
  then show ?thesis by (simp add: analyzeGesture_full_hand fistHand_folded)
qed

lemma sqrt_quarter: "sqrt (1 / 4) = 1 / 2"
  by (simp add: real_sqrt_divide)

lemma pinchHand_gesture: "analyzeGesture (Some pinchHand) = Inr PINCH"
proof -
  have len: "21 \<le> length pinchHand" by (simp add: pinchHand_def)
  have fc: "foldedCount_spec pinchHand = 0"
    by (simp add: foldedCount_spec_def wristDistance_def pinchHand_def minus_jsnum_def
        sqrt_quarter)
  have pd: "pinchDistance_spec pinchHand < Fin 0.05"
    by (simp add: pinchDistance_spec_def pinchHand_def minus_jsnum_def)
  show ?thesis using pd by (simp add: analyzeGesture_full_hand[OF len] fc)
qed

text \<open>
  Claim C4. \<^const>\<open>analyzeGesture\<close> returns NONE on an absent or empty landmark list. On
  a hand of (at least) 21 landmarks, with the folded count the number of landmarks 8, 12,
  16, 20 whose distance to landmark 0 is below 0.25, it returns CLOSED_FIST if the count is
  at least 3, whatever the pinch distance; else PINCH if landmarks 4 and 8 are closer than
  0.05; else OPEN_PALM.
\<close>

theorem analyzeGesture_classification:
  "analyzeGesture None = Inr NONE
   \<and> analyzeGesture (Some []) = Inr NONE
   \<and> (21 \<le> length landmarks \<longrightarrow>
        analyzeGesture (Some landmarks) =
          Inr (if 3 \<le> foldedCount_spec landmarks then CLOSED_FIST
               else if pinchDistance_spec landmarks < Fin 0.05 then PINCH
               else OPEN_PALM))"
  by (simp add: analyzeGesture_full_hand) (simp add: analyzeGesture_def)

theorem analyzeGesture_classification_witness:
  "21 \<le> length fistHand \<and> pinchDistance_spec fistHand < Fin 0.05
   \<and> analyzeGesture (Some fistHand) = Inr CLOSED_FIST"
proof -
  have len: "21 \<le> length fistHand" by (simp add: fistHand_def)
  from analyzeGesture_classification[of fistHand] len fistHand_folded fistHand_pinch
  show ?thesis by simp
qed

section \<open>Physics tick\<close>

lemma updatePhysics_balls:
  "ballsState (updatePhysics st) =
     map (updateBall (gestureRef st = PINCH) (fst (gripperVis st)) (snd (gripperVis st))) (ballsState st)"
  by (simp add: updatePhysics_def gripperVis_def Let_def)

lemma gripperVis_target:
  "gripperVis st = (BASE_X + coord_x (targetState (updatePhysics st)),
                    BASE_Y - coord_y (targetState (updatePhysics st)))"
  by (simp add: updatePhysics_def gripperVis_def Let_def)

lemma updateBall_isGripped:
  "isGripped (updateBall g gx gy b) =
     (g \<and> (Math_hypot (ball_x b - gx) (ball_y b - gy) < Fin 30 \<or> isGripped b))"
  by (auto simp add: updateBall_def Let_def split: prod.splits)

lemma updateBall_gripped:
  "isGripped (updateBall g gx gy b) \<Longrightarrow>
     updateBall g gx gy b =
       b\<lparr>ball_x := gx, ball_y := gy + Fin 15, ball_vx := Fin 0, ball_vy := Fin 0, isGripped := True\<rparr>"
  by (auto simp add: updateBall_def Let_def split: prod.splits if_splits)

lemma updateBall_free:
  assumes "\<not> isGripped (updateBall g gx gy b)"
  shows "updateBall g gx gy b =
     (let vy1 = ball_vy b + Fin 0.5;
          vx1 = ball_vx b * Fin 0.95;
          y1 = ball_y b + vy1;
          x1 = ball_x b + vx1;
          onFloor = (BASE_Y - radius b < y1);
          vx2 = (if onFloor then vx1 * Fin 0.8 else vx1)
      in b\<lparr>ball_x := x1,
            ball_y := (if onFloor then BASE_Y - radius b else y1),
            ball_vx := (if x1 < Fin 0 \<or> Fin 600 < x1 then vx2 * Fin (- 1) else vx2),
            ball_vy := (if onFloor then vy1 * Fin (- 0.6) else vy1),
            isGripped := False\<rparr>)"
  using assms by (auto simp add: updateBall_def Let_def split: prod.splits if_splits)

lemma gripperVis_grippingState: "gripperVis grippingState = (Fin 380, Fin 280)"
  by (simp add: gripperVis_def grippingState_def initialState_def mapInputToCoordinates_def
      Let_def DEFAULT_ARM_CONFIG_def CANVAS_WIDTH_def CANVAS_HEIGHT_def BASE_X_def BASE_Y_def
      minus_jsnum_def)

lemma restingState_free: "\<not> isGripped (ballsState (updatePhysics restingState) ! 0)"
  by (simp add: updatePhysics_balls updateBall_isGripped restingState_def initialState_def)

text \<open>
  Claim C3. On a physics tick, for every ball: the flag \<^const>\<open>isGripped\<close> after the tick
  equals "the gesture is PINCH, and the ball was closer than 30 to the gripper position
  before the tick or was gripped before the tick"; and a ball gripped after the tick sits
  at the gripper position moved 15 units down the screen, with both velocities 0.
\<close>

theorem updatePhysics_grip:
  assumes "i < length (ballsState st)"
  shows "isGripped (ballsState (updatePhysics st) ! i) =
           (gestureRef st = PINCH \<and>
             (Math_hypot (ball_x (ballsState st ! i) - fst (gripperVis st))
                         (ball_y (ballsState st ! i) - snd (gripperVis st)) < Fin 30
              \<or> isGripped (ballsState st ! i)))
         \<and> (isGripped (ballsState (updatePhysics st) ! i) \<longrightarrow>
              ball_x (ballsState (updatePhysics st) ! i) = fst (gripperVis st)
            \<and> ball_y (ballsState (updatePhysics st) ! i) = snd (gripperVis st) + Fin 15
            \<and> ball_vx (ballsState (updatePhysics st) ! i) = Fin 0
            \<and> ball_vy (ballsState (updatePhysics st) ! i) = Fin 0)"
proof -
  let ?g = "gestureRef st = PINCH" and ?gx = "fst (gripperVis st)" and ?gy = "snd (gripperVis st)"
  let ?b = "ballsState st ! i"
  have eq: "ballsState (updatePhysics st) ! i = updateBall ?g ?gx ?gy ?b"
    using assms by (simp add: updatePhysics_balls)
  show ?thesis
    unfolding eq using updateBall_gripped[of ?g ?gx ?gy ?b]
    by (auto simp add: updateBall_isGripped)
qed

theorem updatePhysics_grip_witness:
  "3 < length (ballsState grippingState)
   \<and> isGripped (ballsState (updatePhysics grippingState) ! 3)
   \<and> ball_x (ballsState (updatePhysics grippingState) ! 3) = Fin 380
   \<and> ball_y (ballsState (updatePhysics grippingState) ! 3) = Fin 295"
proof -
  let ?st = grippingState
  have len: "3 < length (ballsState ?st)"
    by (simp add: grippingState_def initialState_def INITIAL_BALLS_def)
  have b3: "ballsState ?st ! 3 =
      \<lparr>ball_id = 4, ball_x = Fin 380, ball_y = Fin 270, color = ''#f59e0b'',
       radius = Fin 15, isGripped = False, ball_vx = Fin 0, ball_vy = Fin 0\<rparr>"
    by (simp add: grippingState_def initialState_def INITIAL_BALLS_def BASE_X_def BASE_Y_def
        minus_jsnum_def)
  have g: "gestureRef ?st = PINCH" by (simp add: grippingState_def)
  have near: "Math_hypot (ball_x (ballsState ?st ! 3) - fst (gripperVis ?st))
                         (ball_y (ballsState ?st ! 3) - snd (gripperVis ?st)) < Fin 30"
    unfolding gripperVis_grippingState b3 by (simp add: minus_jsnum_def)
  show ?thesis
    using updatePhysics_grip[OF len] len near g unfolding gripperVis_grippingState by simp
qed

text \<open>
  Claim C5. On a physics tick a ball that is not gripped after the interaction step gets
  \<open>vy + 0.5\<close> and \<open>vx * 0.95\<close>, then moves by these velocities; if its \<open>y\<close> then exceeds
  \<open>BASE_Y - radius\<close> it is put back on that line with \<open>vy\<close> multiplied by \<open>-0.6\<close> and
  \<open>vx\<close> by \<open>0.8\<close>; and \<open>vx\<close> is negated if the new \<open>x\<close> is outside \<open>[0, 600]\<close>. A ball at
  rest on the floor (\<open>y = 350 - radius\<close>, \<open>vy = 0\<close>) is, one tick later, at the same \<open>y\<close>
  with \<open>vy = -0.3\<close>.
\<close>

theorem updatePhysics_free_ball:
  assumes "i < length (ballsState st)"
    and "\<not> isGripped (ballsState (updatePhysics st) ! i)"
  shows "ballsState (updatePhysics st) ! i =
     (let b = ballsState st ! i;
          vy1 = ball_vy b + Fin 0.5;
          vx1 = ball_vx b * Fin 0.95;
          y1 = ball_y b + vy1;
          x1 = ball_x b + vx1;
          onFloor = (BASE_Y - radius b < y1);
          vx2 = (if onFloor then vx1 * Fin 0.8 else vx1)
      in b\<lparr>ball_x := x1,
            ball_y := (if onFloor then BASE_Y - radius b else y1),
            ball_vx := (if x1 < Fin 0 \<or> Fin 600 < x1 then vx2 * Fin (- 1) else vx2),
            ball_vy := (if onFloor then vy1 * Fin (- 0.6) else vy1),
            isGripped := False\<rparr>)
    \<and> (radius (ballsState st ! i) = Fin r \<and> ball_y (ballsState st ! i) = Fin (350 - r)
         \<and> ball_vy (ballsState st ! i) = Fin 0 \<longrightarrow>
         ball_y (ballsState (updatePhysics st) ! i) = Fin (350 - r)
         \<and> ball_vy (ballsState (updatePhysics st) ! i) = Fin (- 0.3))"
proof -
  let ?g = "gestureRef st = PINCH" and ?gx = "fst (gripperVis st)" and ?gy = "snd (gripperVis st)"
  let ?b = "ballsState st ! i"
  have eq: "ballsState (updatePhysics st) ! i = updateBall ?g ?gx ?gy ?b"
    using assms(1) by (simp add: updatePhysics_balls)
  have free: "\<not> isGripped (updateBall ?g ?gx ?gy ?b)"
    using assms(2) by (simp add: eq)
  note step = updateBall_free[OF free]
  have rest: "ball_y (updateBall ?g ?gx ?gy ?b) = Fin (350 - r)
      \<and> ball_vy (updateBall ?g ?gx ?gy ?b) = Fin (- 0.3)"
    if "radius ?b = Fin r" "ball_y ?b = Fin (350 - r)" "ball_vy ?b = Fin 0"
    using that by (simp add: step Let_def BASE_Y_def minus_jsnum_def)
  show ?thesis
    unfolding eq
  proof (intro conjI impI)
    show "updateBall ?g ?gx ?gy ?b =
     (let b = ?b;
          vy1 = ball_vy b + Fin 0.5;
          vx1 = ball_vx b * Fin 0.95;
          y1 = ball_y b + vy1;
          x1 = ball_x b + vx1;
          onFloor = (BASE_Y - radius b < y1);
          vx2 = (if onFloor then vx1 * Fin 0.8 else vx1)
      in b\<lparr>ball_x := x1,
            ball_y := (if onFloor then BASE_Y - radius b else y1),
            ball_vx := (if x1 < Fin 0 \<or> Fin 600 < x1 then vx2 * Fin (- 1) else vx2),
            ball_vy := (if onFloor then vy1 * Fin (- 0.6) else vy1),
            isGripped := False\<rparr>)"
      using step by (simp add: Let_def)
  next
    assume a: "radius ?b = Fin r \<and> ball_y ?b = Fin (350 - r) \<and> ball_vy ?b = Fin 0"
    show "ball_y (updateBall ?g ?gx ?gy ?b) = Fin (350 - r)"
      using rest a by blast
    show "ball_vy (updateBall ?g ?gx ?gy ?b) = Fin (- 0.3)"
      using rest a by blast
  qed
qed

theorem updatePhysics_free_ball_witness:
  "0 < length (ballsState restingState)
   \<and> \<not> isGripped (ballsState (updatePhysics restingState) ! 0)
   \<and> radius (ballsState restingState ! 0) = Fin 15
   \<and> ball_y (ballsState restingState ! 0) = Fin (350 - 15)
   \<and> ball_vy (ballsState restingState ! 0) = Fin 0
   \<and> ball_y (ballsState (updatePhysics restingState) ! 0) = Fin (350 - 15)
   \<and> ball_vy (ballsState (updatePhysics restingState) ! 0) = Fin (- 0.3)"
proof -
  have len: "0 < length (ballsState restingState)" by (simp add: restingState_def)
  have pre: "radius (ballsState restingState ! 0) = Fin 15"
    "ball_y (ballsState restingState ! 0) = Fin (350 - 15)"
    "ball_vy (ballsState restingState ! 0) = Fin 0"
    by (simp_all add: restingState_def)
  from updatePhysics_free_ball[OF len restingState_free, of 15] pre len restingState_free
  show ?thesis by blast
qed

section \<open>Tracking loop\<close>

lemma pinchHand_5: "pinchHand ! 5 = \<lparr>lm_x = Fin 0.2, lm_y = Fin 0.4\<rparr>"
  by (simp add: pinchHand_def)

text \<open>A frame that changes the pointer sample has classified a gesture other than the
  closed fist.\<close>

lemma loop_pointer_changed:
  assumes "loop fr st = Inr st'" and "inputPosRef st' \<noteq> inputPosRef st"
  shows "\<exists>landmarks others g. detections fr = Some (landmarks # others)
           \<and> analyzeGesture (Some landmarks) = Inr g \<and> g \<noteq> CLOSED_FIST"
  using assms
  by (auto simp add: loop_def Let_def split: if_splits option.splits list.splits sum.splits)

text \<open>
  The pointer sample is not the position of the landmark: on a frame with landmark 5 at
  \<open>(0.2, 0.4)\<close> and a pinch, the loop stores \<open>(0.8, 0.4)\<close>.
\<close>

theorem loop_pointer_mirrored_counterexample:
  "analyzeGesture (Some pinchHand) = Inr PINCH
   \<and> pinchHand ! 5 = \<lparr>lm_x = Fin 0.2, lm_y = Fin 0.4\<rparr>
   \<and> loop pinchFrame initialState =
       Inr (initialState\<lparr>lastVideoTimeRef := Fin 0, gestureState := PINCH,
                          inputPosRef := \<lparr>pos_x = Fin 0.8, pos_y = Fin 0.4\<rparr>\<rparr>)"
  by (simp add: pinchHand_gesture pinchHand_5 loop_def pinchFrame_def initialState_def
      strictNotEqual_def drawLandmarks_def index_def Let_def minus_jsnum_def)
    (simp add: pinchHand_def)

text \<open>
  Claim C7, amended. On a frame that the tracking loop processes (video ready, vision
  ready, a new video time, a canvas context) and in which a hand of 21 landmarks is
  detected and classified: if the gesture is CLOSED_FIST the pointer sample
  \<^const>\<open>inputPosRef\<close> keeps its value; otherwise it becomes the position of landmark 5
  mirrored horizontally, \<open>x = 1 - landmark.x\<close> and \<open>y = landmark.y\<close>.
\<close>

theorem loop_pointer_sample:
  assumes "videoPresent fr" and "2 \<le> readyState fr" and "isVisionReady fr"
    and "strictNotEqual (currentTime fr) (lastVideoTimeRef st)"
    and "canvasContext fr"
    and "detections fr = Some (landmarks # others)"
    and "21 \<le> length landmarks"
    and "analyzeGesture (Some landmarks) = Inr g"
  shows "\<exists>st'. loop fr st = Inr st'
           \<and> inputPosRef st' =
               (if g = CLOSED_FIST then inputPosRef st
                else \<lparr>pos_x = Fin 1 - lm_x (landmarks ! 5), pos_y = lm_y (landmarks ! 5)\<rparr>)"
  using assms by (simp add: loop_def drawLandmarks_def index_def Let_def)

theorem loop_pointer_sample_witness:
  "videoPresent pinchFrame \<and> 2 \<le> readyState pinchFrame \<and> isVisionReady pinchFrame
   \<and> strictNotEqual (currentTime pinchFrame) (lastVideoTimeRef initialState)
   \<and> canvasContext pinchFrame \<and> detections pinchFrame = Some (pinchHand # [])
   \<and> 21 \<le> length pinchHand \<and> analyzeGesture (Some pinchHand) = Inr PINCH
   \<and> (\<exists>st'. loop pinchFrame initialState = Inr st'
             \<and> inputPosRef st' = \<lparr>pos_x = Fin 0.8, pos_y = Fin 0.4\<rparr>)
   \<and> videoPresent fistFrame \<and> 2 \<le> readyState fistFrame \<and> isVisionReady fistFrame
   \<and> strictNotEqual (currentTime fistFrame) (lastVideoTimeRef initialState)
   \<and> canvasContext fistFrame \<and> detections fistFrame = Some (fistHand # [])
   \<and> 21 \<le> length fistHand \<and> analyzeGesture (Some fistHand) = Inr CLOSED_FIST
   \<and> (\<exists>st'. loop fistFrame initialState = Inr st'
             \<and> inputPosRef st' = inputPosRef initialState)"
proof -
  have hp: "videoPresent pinchFrame" "2 \<le> readyState pinchFrame" "isVisionReady pinchFrame"
    "strictNotEqual (currentTime pinchFrame) (lastVideoTimeRef initialState)"
    "canvasContext pinchFrame" "detections pinchFrame = Some (pinchHand # [])"
    by (simp_all add: pinchFrame_def initialState_def strictNotEqual_def)
  have hf: "videoPresent fistFrame" "2 \<le> readyState fistFrame" "isVisionReady fistFrame"
    "strictNotEqual (currentTime fistFrame) (lastVideoTimeRef initialState)"
    "canvasContext fistFrame" "detections fistFrame = Some (fistHand # [])"
    by (simp_all add: fistFrame_def initialState_def strictNotEqual_def)
  have lp: "21 \<le> length pinchHand" by (simp add: pinchHand_def)
  have lf: "21 \<le> length fistHand" by (simp add: fistHand_def)
  have p: "\<exists>st'. loop pinchFrame initialState = Inr st'
             \<and> inputPosRef st' = \<lparr>pos_x = Fin 0.8, pos_y = Fin 0.4\<rparr>"
    using loop_pointer_sample[OF hp lp pinchHand_gesture]
    by (simp add: pinchHand_5 minus_jsnum_def)
  have f: "\<exists>st'. loop fistFrame initialState = Inr st'
             \<and> inputPosRef st' = inputPosRef initialState"
    using loop_pointer_sample[OF hf lf fistHand_gesture] by simp
  from hp hf lp lf pinchHand_gesture fistHand_gesture p f show ?thesis by blast
qed

section \<open>Configuration form\<close>

lemma orZero_positive: "(Fin 0 < orZero v) = (Fin 0 < v)"
  by (cases v) (simp_all add: orZero_def)

text \<open>
  The form does not keep the segment lengths positive: clearing the first field stores 0,
  and entering \<open>-5\<close> in the second stores -5.
\<close>

theorem handleChange_invariant_counterexample:
  "Fin 0 < segment1Length DEFAULT_ARM_CONFIG \<and> Fin 0 < segment2Length DEFAULT_ARM_CONFIG
   \<and> segment1Length (handleChange Key_segment1Length '''' DEFAULT_ARM_CONFIG) = Fin 0
   \<and> \<not> Fin 0 < segment1Length (handleChange Key_segment1Length '''' DEFAULT_ARM_CONFIG)
   \<and> segment2Length (handleChange Key_segment2Length ''-5'' DEFAULT_ARM_CONFIG) = Fin (- 5)
   \<and> \<not> Fin 0 < segment2Length (handleChange Key_segment2Length ''-5'' DEFAULT_ARM_CONFIG)"
  by (simp add: DEFAULT_ARM_CONFIG_def orZero_def parseFloat_def toNumber_def isDigit_def
      isWhiteSpace_def whiteSpace2_def whiteSpace3_def digitsValue_def digitValue_def)

text \<open>
  Claim C9, amended. \<^const>\<open>handleChange\<close> stores \<^verbatim>\<open>parseFloat(val) || 0\<close> in the field it
  is called for and does not validate it. Starting from a configuration with positive
  segment lengths, the updated configuration has positive segment lengths exactly when
  the edited field is the base rotation or the entered string parses to a positive number;
  an empty, non-numeric, zero or negative entry for a segment breaks the invariant.
\<close>

theorem handleChange_positive_iff:
  assumes "Fin 0 < segment1Length config" and "Fin 0 < segment2Length config"
  shows "(Fin 0 < segment1Length (handleChange key val config)
          \<and> Fin 0 < segment2Length (handleChange key val config))
         = (key = Key_baseRotation \<or> Fin 0 < parseFloat val)"
  using assms by (cases key) (simp_all add: orZero_positive)

theorem handleChange_positive_iff_witness:
  "Fin 0 < segment1Length DEFAULT_ARM_CONFIG \<and> Fin 0 < segment2Length DEFAULT_ARM_CONFIG
   \<and> Fin 0 < parseFloat ''200''
   \<and> Fin 0 < segment1Length (handleChange Key_segment1Length ''200'' DEFAULT_ARM_CONFIG)
   \<and> Fin 0 < segment2Length (handleChange Key_segment1Length ''200'' DEFAULT_ARM_CONFIG)"
proof -
  have h: "Fin 0 < segment1Length DEFAULT_ARM_CONFIG" "Fin 0 < segment2Length DEFAULT_ARM_CONFIG"
    by (simp_all add: DEFAULT_ARM_CONFIG_def)
  have p: "parseFloat ''200'' = Fin 200"
    by (simp add: parseFloat_def toNumber_def isDigit_def isWhiteSpace_def whiteSpace2_def
        whiteSpace3_def digitsValue_def digitValue_def)
  from handleChange_positive_iff[OF h, of Key_segment1Length "''200''"] h p show ?thesis by simp
qed

end
